theory Spec2Isabelle
  imports Complex_Main "HOL-Library.Log_Nat" "HOL-Library.Multiset"
begin

section \<open>The task service of the task-management back end\<close>

text \<open>
  A shallow embedding of \<^verbatim>\<open>TasksService\<close> (the class in \<^verbatim>\<open>src/app.module.ts\<close>,
  lines 133 to 483) and of the DTOs it reads. The service talks to three collaborators:
  the tasks table (through a repository and, inside a transaction, through a query
  runner), the \<^verbatim>\<open>task-processing\<close> queue (which may be absent), and a logger.
  All three are made explicit: the table, the open transaction, the queue's accepted jobs
  and the sequence of calls made are fields of a state that every operation takes and
  returns; an exception is the left summand of the result.
\<close>

subsection \<open>Exceptions\<close>

text \<open>
  The values the service throws or catches. \<^verbatim>\<open>NotFoundException\<close> and
  \<^verbatim>\<open>BadRequestException\<close> are the framework's HTTP exceptions (client errors 404 and
  400); \<open>Error\<close> is any other instance of JavaScript's \<^verbatim>\<open>Error\<close> (a failed query, a
  lost queue connection); \<open>NonError\<close> is a thrown value that is no \<^verbatim>\<open>Error\<close> at all.
\<close>

datatype exn =
    NotFoundException string
  | BadRequestException string
  | Error string
  | NonError

text \<open>\<^verbatim>\<open>error instanceof Error ? error.message : 'Unknown error'\<close>\<close>

fun error_message :: "exn \<Rightarrow> string" where
  "error_message (NotFoundException m) = m"
| "error_message (BadRequestException m) = m"
| "error_message (Error m) = m"
| "error_message NonError = ''Unknown error''"

text \<open>\<^verbatim>\<open>error instanceof NotFoundException\<close>\<close>

fun is_NotFound :: "exn \<Rightarrow> bool" where
  "is_NotFound (NotFoundException m) = True"
| "is_NotFound e = False"


subsection \<open>Rows, DTOs and jobs\<close>

text \<open>
  Modelled from the spec: the \<^verbatim>\<open>Task\<close> entity (\<^verbatim>\<open>entities/task.entity.ts\<close> is not
  among the sources). Its columns are those of the specification's data model, without
  the two store-assigned timestamps, which no operation below reads. At run time a
  status and a priority are strings: the casts \<^verbatim>\<open>as TaskStatus\<close> and
  \<^verbatim>\<open>as TaskPriority\<close> of the service are erased by the compiler.
\<close>

record task =
  task_id :: string
  title :: string
  description :: "string option"
  status :: string
  priority :: string
  userId :: string
  dueDate :: "nat option"

text \<open>
  Modelled from the spec: the members of the enumerations \<^verbatim>\<open>TaskStatus\<close> and
  \<^verbatim>\<open>TaskPriority\<close> (\<^verbatim>\<open>enums/task-status.enum.ts\<close> and
  \<^verbatim>\<open>enums/task-priority.enum.ts\<close> are not among the sources).
\<close>

definition PENDING :: string where "PENDING = ''pending''"
definition IN_PROGRESS :: string where "IN_PROGRESS = ''in_progress''"
definition COMPLETED :: string where "COMPLETED = ''completed''"

definition LOW :: string where "LOW = ''low''"
definition MEDIUM :: string where "MEDIUM = ''medium''"
definition HIGH :: string where "HIGH = ''high''"



text \<open>
  Modelled from the spec: \<^verbatim>\<open>CreateTaskDto\<close> and \<^verbatim>\<open>UpdateTaskDto\<close>
  (\<^verbatim>\<open>dto/create-task.dto.ts\<close> and \<^verbatim>\<open>dto/update-task.dto.ts\<close> are not among the
  sources): the input of a creation, and a patch in which every field may be absent.
\<close>

record createTaskDto =
  c_title :: string
  c_description :: "string option"
  c_status :: "string option"
  c_priority :: "string option"
  c_userId :: string
  c_dueDate :: "nat option"

record updateTaskDto =
  u_title :: "string option"
  u_description :: "string option"
  u_status :: "string option"
  u_priority :: "string option"
  u_userId :: "string option"
  u_dueDate :: "nat option"

text \<open>\<^verbatim>\<open>BatchTaskDto\<close> (\<^verbatim>\<open>dto/batch-task.dto.ts\<close>); \<open>None\<close> is an absent property.\<close>

record batchTaskDto =
  taskIds :: "string list"
  action :: string
  newStatus :: "string option"
  newPriority :: "string option"

text \<open>One entry of the list that \<^verbatim>\<open>batchProcess\<close> returns.\<close>

record batchResult =
  r_action :: string
  success :: bool
  affected :: nat
  r_newStatus :: "string option"
  r_newPriority :: "string option"

text \<open>
  A job handed to the queue: its name, its payload \<^verbatim>\<open>{taskId, status}\<close> and its retry
  options \<^verbatim>\<open>{attempts, backoff: {type, delay}}\<close>.
\<close>

record job =
  job_name :: string
  job_taskId :: string
  job_status :: string
  attempts :: nat
  backoff_type :: string
  backoff_delay :: nat

subsection \<open>The collaborators\<close>

text \<open>
  The calls the service makes on the query runner, its manager and the repository.
\<close>

datatype call =
    Connect
  | StartTransaction
  | FindOne
  | Save
  | Remove
  | Execute
  | CommitTransaction
  | RollbackTransaction
  | Release

text \<open>
  What happened, in order: a call on the store and whether it returned, an attempt to
  add a job to the queue and whether the queue took it, a line of the log.
\<close>

datatype event =
    Called call bool
  | QueueAdd job bool
  | LogError string
  | LogWarn string

text \<open>
  The injected queue, \<^verbatim>\<open>Queue | null\<close>: a queue either takes a job or throws.
\<close>

datatype queue = Queue (add_throws: "exn option")

text \<open>
  The environment of one call of the service: the queue it was wired with, the failures
  of the store (a read, a write or the commit may throw), the identifier that the store
  assigns to the next inserted row, and the defaults of the two enumerated columns.

  Failures are injected at the statements inside the transaction and at the repository's
  reads and writes. Obtaining the connection, opening the transaction, rolling back and
  releasing are taken to succeed: what the driver does when the \<^verbatim>\<open>catch\<close> block rolls
  back a transaction that never started is not in the sources.
\<close>

record env =
  taskQueue :: "queue option"
  fault :: "call \<Rightarrow> exn option"
  new_id :: string
  default_status :: string
  default_priority :: string

text \<open>
  The state: the committed rows of the tasks table, the working copy of the query
  runner's open transaction (if one is open), the jobs the queue has taken, and the
  events so far.
\<close>

record world =
  tasks :: "task list"
  txn :: "task list option"
  jobs :: "job list"
  trace :: "event list"

subsection \<open>Sequencing, exceptions, \<^verbatim>\<open>try\<close>/\<^verbatim>\<open>catch\<close>/\<^verbatim>\<open>finally\<close>\<close>

type_synonym 'a io = "world \<Rightarrow> (exn + 'a) \<times> world"

definition ok :: "'a \<Rightarrow> 'a io" where
  "ok x w = (Inr x, w)"

definition throw :: "exn \<Rightarrow> 'a io" where
  "throw e w = (Inl e, w)"

definition io_bind :: "'a io \<Rightarrow> ('a \<Rightarrow> 'b io) \<Rightarrow> 'b io" where
  "io_bind m f w = (case m w of (Inl e, w') \<Rightarrow> (Inl e, w') | (Inr x, w') \<Rightarrow> f x w')"

definition try_catch :: "'a io \<Rightarrow> (exn \<Rightarrow> 'a io) \<Rightarrow> 'a io" where
  "try_catch m handler w = (case m w of (Inl e, w') \<Rightarrow> handler e w' | (Inr x, w') \<Rightarrow> (Inr x, w'))"

text \<open>
  \<^verbatim>\<open>try { m } finally { fin }\<close>: \<open>fin\<close> runs on every exit; the outcome is that of \<open>m\<close>
  unless \<open>fin\<close> itself throws.
\<close>

definition try_finally :: "'a io \<Rightarrow> unit io \<Rightarrow> 'a io" where
  "try_finally m fin w =
     (case m w of (r, w') \<Rightarrow>
        (case fin w' of (Inl e, w'') \<Rightarrow> (Inl e, w'') | (Inr u, w'') \<Rightarrow> (r, w'')))"

definition emit :: "event \<Rightarrow> unit io" where
  "emit e w = (Inr (), w\<lparr>trace := trace w @ [e]\<rparr>)"

definition logger_error :: "string \<Rightarrow> unit io" where
  "logger_error m = emit (LogError m)"

definition logger_warn :: "string \<Rightarrow> unit io" where
  "logger_warn m = emit (LogWarn m)"

subsection \<open>The store\<close>

text \<open>A call that the environment may make fail.\<close>

definition store_call :: "env \<Rightarrow> call \<Rightarrow> unit io" where
  "store_call env c =
     (case fault env c of
        None \<Rightarrow> emit (Called c True)
      | Some e \<Rightarrow> io_bind (emit (Called c False)) (\<lambda>u. throw e))"

text \<open>
  The rows a statement sees and writes: the working copy of the open transaction, or
  the table itself when no transaction is open.
\<close>

definition working :: "world \<Rightarrow> task list" where
  "working w = (case txn w of Some ts \<Rightarrow> ts | None \<Rightarrow> tasks w)"

definition set_working :: "task list \<Rightarrow> world \<Rightarrow> world" where
  "set_working ts w = (case txn w of Some old \<Rightarrow> w\<lparr>txn := Some ts\<rparr> | None \<Rightarrow> w\<lparr>tasks := ts\<rparr>)"

definition connect :: "unit io" where
  "connect = emit (Called Connect True)"

definition startTransaction :: "unit io" where
  "startTransaction =
     io_bind (emit (Called StartTransaction True)) (\<lambda>u w. (Inr (), w\<lparr>txn := Some (tasks w)\<rparr>))"

definition commitTransaction :: "env \<Rightarrow> unit io" where
  "commitTransaction env =
     io_bind (store_call env CommitTransaction)
       (\<lambda>u w. (Inr (), w\<lparr>tasks := working w, txn := None\<rparr>))"

definition rollbackTransaction :: "unit io" where
  "rollbackTransaction =
     io_bind (emit (Called RollbackTransaction True)) (\<lambda>u w. (Inr (), w\<lparr>txn := None\<rparr>))"

definition release :: "unit io" where
  "release = emit (Called Release True)"

text \<open>\<^verbatim>\<open>findOne({ where: { id } })\<close>: the row with this primary key, or nothing.\<close>

definition manager_findOne :: "env \<Rightarrow> string \<Rightarrow> task option io" where
  "manager_findOne env i =
     io_bind (store_call env FindOne)
       (\<lambda>u w. (Inr (find (\<lambda>t. task_id t = i) (working w)), w))"

text \<open>The repository reads and writes the table itself, outside any transaction.\<close>

definition repository_findOne :: "env \<Rightarrow> string \<Rightarrow> task option io" where
  "repository_findOne env i =
     io_bind (store_call env FindOne)
       (\<lambda>u w. (Inr (find (\<lambda>t. task_id t = i) (tasks w)), w))"

text \<open>
  \<^verbatim>\<open>save\<close> of an entity that carries a primary key: the row with that key is replaced,
  and the entity is inserted when there is none.
\<close>

definition upsert :: "task \<Rightarrow> task list \<Rightarrow> task list" where
  "upsert t ts =
     (if \<exists>r \<in> set ts. task_id r = task_id t
      then map (\<lambda>r. if task_id r = task_id t then t else r) ts
      else ts @ [t])"

definition manager_save :: "env \<Rightarrow> task \<Rightarrow> task io" where
  "manager_save env t =
     io_bind (store_call env Save) (\<lambda>u w. (Inr t, set_working (upsert t (working w)) w))"

definition repository_save :: "env \<Rightarrow> task \<Rightarrow> task io" where
  "repository_save env t =
     io_bind (store_call env Save) (\<lambda>u w. (Inr t, w\<lparr>tasks := upsert t (tasks w)\<rparr>))"

definition manager_remove :: "env \<Rightarrow> task \<Rightarrow> unit io" where
  "manager_remove env t =
     io_bind (store_call env Remove)
       (\<lambda>u w. (Inr (), set_working (filter (\<lambda>r. task_id r \<noteq> task_id t) (working w)) w))"

text \<open>
  \<^verbatim>\<open>createQueryBuilder().update(Task).set(...).whereInIds(ids).execute()\<close> and
  \<^verbatim>\<open>createQueryBuilder().delete().from(Task).whereInIds(ids).execute()\<close>: one statement
  over every row whose key is among \<open>ids\<close>.
\<close>

definition update_whereInIds :: "(task \<Rightarrow> task) \<Rightarrow> string list \<Rightarrow> task list \<Rightarrow> task list" where
  "update_whereInIds f ids ts = map (\<lambda>r. if task_id r \<in> set ids then f r else r) ts"

definition delete_whereInIds :: "string list \<Rightarrow> task list \<Rightarrow> task list" where
  "delete_whereInIds ids ts = filter (\<lambda>r. task_id r \<notin> set ids) ts"

definition execute :: "env \<Rightarrow> (task list \<Rightarrow> task list) \<Rightarrow> unit io" where
  "execute env stmt =
     io_bind (store_call env Execute) (\<lambda>u w. (Inr (), set_working (stmt (working w)) w))"

subsection \<open>The queue\<close>

definition queue_add :: "queue \<Rightarrow> job \<Rightarrow> unit io" where
  "queue_add q j =
     (case add_throws q of
        None \<Rightarrow> io_bind (emit (QueueAdd j True)) (\<lambda>u w. (Inr (), w\<lparr>jobs := jobs w @ [j]\<rparr>))
      | Some e \<Rightarrow> io_bind (emit (QueueAdd j False)) (\<lambda>u. throw e))"

text \<open>
  \<^verbatim>\<open>add('task-status-update', { taskId, status }, { attempts: 3, backoff: { type:
  'exponential', delay: 2000 } })\<close>
\<close>

definition status_update_job :: "task \<Rightarrow> job" where
  "status_update_job t =
     \<lparr>job_name = ''task-status-update'', job_taskId = task_id t, job_status = status t,
      attempts = 3, backoff_type = ''exponential'', backoff_delay = 2000\<rparr>"

subsection \<open>The operations of \<^verbatim>\<open>TasksService\<close>\<close>



text \<open>\<^verbatim>\<open>findOne\<close>, lines 218 to 229.\<close>

definition findOne :: "env \<Rightarrow> string \<Rightarrow> task io" where
  "findOne env i =
     io_bind (repository_findOne env i) (\<lambda>found.
       case found of
         None \<Rightarrow> throw (NotFoundException (''Task with ID '' @ i @ '' not found''))
       | Some t \<Rightarrow> ok t)"

text \<open>\<^verbatim>\<open>Object.assign(task, updateTaskDto)\<close>: every property the patch has overwrites the row's.\<close>

definition assign :: "task \<Rightarrow> updateTaskDto \<Rightarrow> task" where
  "assign t dto =
     t\<lparr>title := (case u_title dto of Some x \<Rightarrow> x | None \<Rightarrow> title t),
       description := (case u_description dto of Some x \<Rightarrow> Some x | None \<Rightarrow> description t),
       status := (case u_status dto of Some x \<Rightarrow> x | None \<Rightarrow> status t),
       priority := (case u_priority dto of Some x \<Rightarrow> x | None \<Rightarrow> priority t),
       userId := (case u_userId dto of Some x \<Rightarrow> x | None \<Rightarrow> userId t),
       dueDate := (case u_dueDate dto of Some x \<Rightarrow> Some x | None \<Rightarrow> dueDate t)\<rparr>"

text \<open>\<^verbatim>\<open>update\<close>, lines 231 to 284.\<close>

definition update :: "env \<Rightarrow> string \<Rightarrow> updateTaskDto \<Rightarrow> task io" where
  "update env i updateTaskDto =
     try_finally
       (try_catch
          (io_bind connect (\<lambda>u.
           io_bind startTransaction (\<lambda>u.
           io_bind (manager_findOne env i) (\<lambda>found.
             case found of
               None \<Rightarrow> throw (NotFoundException (''Task with ID '' @ i @ '' not found''))
             | Some t \<Rightarrow>
                 (let originalStatus = status t in
                  io_bind (manager_save env (assign t updateTaskDto)) (\<lambda>updatedTask.
                  io_bind
                    (if originalStatus \<noteq> status updatedTask
                     then (case taskQueue env of
                             Some q \<Rightarrow>
                               try_catch (queue_add q (status_update_job updatedTask))
                                 (\<lambda>queueError.
                                    logger_error
                                      (''Failed to add status update to queue for task '' @ i @ '':''))
                           | None \<Rightarrow> ok ())
                     else ok ())
                    (\<lambda>u.
                  io_bind (commitTransaction env) (\<lambda>u.
                  ok updatedTask))))))))
          (\<lambda>error.
             io_bind rollbackTransaction (\<lambda>u.
             if is_NotFound error then throw error
             else io_bind (logger_error (''Failed to update task '' @ i @ '':'')) (\<lambda>u.
                  throw (BadRequestException ''Failed to update task'')))))
       release"


text \<open>
  \<^verbatim>\<open>updateStatus\<close>, lines 323 to 327: no query runner, no transaction, no queue; the
  string is stored as it comes.
\<close>

definition updateStatus :: "env \<Rightarrow> string \<Rightarrow> string \<Rightarrow> task io" where
  "updateStatus env i s =
     io_bind (findOne env i) (\<lambda>t.
     repository_save env (t\<lparr>status := s\<rparr>))"

text \<open>
  JavaScript's \<^verbatim>\<open>!x\<close> for an optional string: true when the property is absent and when
  it is the empty string.
\<close>

fun falsy :: "string option \<Rightarrow> bool" where
  "falsy None = True"
| "falsy (Some s) = (s = [])"

definition string_of :: "string option \<Rightarrow> string" where
  "string_of x = (case x of Some s \<Rightarrow> s | None \<Rightarrow> [])"

text \<open>\<^verbatim>\<open>batchProcess\<close>, lines 371 to 450. The \<^verbatim>\<open>switch\<close> is the chain of comparisons.\<close>

definition batchProcess :: "env \<Rightarrow> batchTaskDto \<Rightarrow> batchResult list io" where
  "batchProcess env batchDto =
     (let ids = taskIds batchDto; act = action batchDto in
      try_finally
        (try_catch
           (io_bind connect (\<lambda>u.
            io_bind startTransaction (\<lambda>u.
            io_bind
              (if act = ''complete'' then
                 io_bind (execute env (update_whereInIds (\<lambda>r. r\<lparr>status := COMPLETED\<rparr>) ids)) (\<lambda>u.
                 ok [\<lparr>r_action = ''complete'', success = True, affected = length ids,
                      r_newStatus = None, r_newPriority = None\<rparr>])
               else if act = ''delete'' then
                 io_bind (execute env (delete_whereInIds ids)) (\<lambda>u.
                 ok [\<lparr>r_action = ''delete'', success = True, affected = length ids,
                      r_newStatus = None, r_newPriority = None\<rparr>])
               else if act = ''update_status'' then
                 (if falsy (newStatus batchDto)
                  then throw (BadRequestException ''New status is required for update_status action'')
                  else
                    io_bind
                      (execute env
                         (update_whereInIds (\<lambda>r. r\<lparr>status := string_of (newStatus batchDto)\<rparr>) ids))
                      (\<lambda>u.
                    ok [\<lparr>r_action = ''update_status'', success = True, affected = length ids,
                         r_newStatus = newStatus batchDto, r_newPriority = None\<rparr>]))
               else if act = ''update_priority'' then
                 (if falsy (newPriority batchDto)
                  then throw (BadRequestException ''New priority is required for update_priority action'')
                  else
                    io_bind
                      (execute env
                         (update_whereInIds (\<lambda>r. r\<lparr>priority := string_of (newPriority batchDto)\<rparr>) ids))
                      (\<lambda>u.
                    ok [\<lparr>r_action = ''update_priority'', success = True, affected = length ids,
                         r_newStatus = None, r_newPriority = newPriority batchDto\<rparr>]))
               else throw (BadRequestException (''Unknown action: '' @ act)))
              (\<lambda>results.
            io_bind (commitTransaction env) (\<lambda>u.
            ok results)))))
           (\<lambda>error.
              io_bind rollbackTransaction (\<lambda>u.
              (let message = error_message error in
               io_bind (logger_error (''Batch operation failed: '' @ message)) (\<lambda>u.
               throw (BadRequestException (''Batch operation failed: '' @ message)))))))
        release)"

subsection \<open>JavaScript numbers\<close>

text \<open>
  The service computes a percentage and a page count in JavaScript's numbers, IEEE 754
  double precision. A finite double is a rational; an operation yields the exact result
  rounded to the nearest double, ties to the even significand. \<open>to_double\<close> is that
  rounding for the normal range (53 significant bits, no overflow or underflow: the
  operands here are row counts and percentages).
\<close>

definition pow2 :: "int \<Rightarrow> rat" where
  "pow2 e = (if 0 \<le> e then 2 ^ nat e else 1 / 2 ^ nat (- e))"

text \<open>The binary exponent of a positive rational: \<open>pow2 (ilog2 x) \<le> x < pow2 (ilog2 x + 1)\<close>.\<close>

definition ilog2 :: "rat \<Rightarrow> int" where
  "ilog2 x =
     (if 1 \<le> x then int (floorlog 2 (nat \<lfloor>x\<rfloor>)) - 1
      else - int (floorlog 2 (nat (\<lceil>1 / x\<rceil> - 1))))"

definition round_ties_even :: "rat \<Rightarrow> int" where
  "round_ties_even x =
     (let f = \<lfloor>x\<rfloor>; r = x - of_int f in
      if r < 1 / 2 then f else if 1 / 2 < r then f + 1 else if even f then f else f + 1)"

definition to_double :: "rat \<Rightarrow> rat" where
  "to_double x =
     (if x = 0 then 0
      else (let u = pow2 (ilog2 \<bar>x\<bar> - 52) in of_int (round_ties_even (x / u)) * u))"

text \<open>\<^verbatim>\<open>a / b\<close> and \<^verbatim>\<open>a * b\<close> on finite doubles, for a divisor that is not zero.\<close>

definition js_div :: "rat \<Rightarrow> rat \<Rightarrow> rat" where
  "js_div a b = to_double (a / b)"



definition Math_ceil :: "rat \<Rightarrow> int" where
  "Math_ceil x = \<lceil>x\<rceil>"

subsection \<open>Statistics\<close>





subsection \<open>Listing\<close>

datatype sortOrder = ASC | DESC

text \<open>\<^verbatim>\<open>QueryTaskDto\<close> (\<^verbatim>\<open>dto/query-task.dto.ts\<close>); \<open>None\<close> is an absent property.\<close>

record queryTaskDto =
  q_status :: "string option"
  q_priority :: "string option"
  q_userId :: "string option"
  q_search :: "string option"
  q_dueDate :: "string option"
  q_sortBy :: "string option"
  q_sortOrder :: "sortOrder option"
  q_page :: "nat option"
  q_limit :: "nat option"

text \<open>\<^verbatim>\<open>PaginatedTasksDto\<close> (\<^verbatim>\<open>dto/paginated-tasks.dto.ts\<close>).\<close>

record paginatedTasksDto =
  data :: "task list"
  p_total :: nat
  page :: nat
  limit :: nat
  totalPages :: int
  hasNext :: bool
  hasPrev :: bool

text \<open>
  What the query leaves to the database: the operator \<^verbatim>\<open>ILIKE\<close> (text, then pattern),
  the comparison of the due-date column with the ISO string of the filter, and
  \<^verbatim>\<open>ORDER BY\<close> on a column named by a string.
\<close>

record sql =
  ilike :: "string \<Rightarrow> string \<Rightarrow> bool"
  date_equals :: "nat option \<Rightarrow> string \<Rightarrow> bool"
  order_by :: "string \<Rightarrow> sortOrder \<Rightarrow> task list \<Rightarrow> task list"

text \<open>
  \<^verbatim>\<open>buildTaskQuery\<close>, lines 452 to 482: the conjunction of the filters that are present.
  A filter is present when its string is truthy.
\<close>

definition buildTaskQuery :: "sql \<Rightarrow> queryTaskDto \<Rightarrow> task \<Rightarrow> bool" where
  "buildTaskQuery db queryDto t =
     ((falsy (q_status queryDto) \<or> status t = string_of (q_status queryDto)) \<and>
      (falsy (q_priority queryDto) \<or> priority t = string_of (q_priority queryDto)) \<and>
      (falsy (q_userId queryDto) \<or> userId t = string_of (q_userId queryDto)) \<and>
      (falsy (q_search queryDto) \<or>
         (let search = ''%'' @ string_of (q_search queryDto) @ ''%'' in
          ilike db (title t) search \<or>
          (case description t of Some d \<Rightarrow> ilike db d search | None \<Rightarrow> False))) \<and>
      (falsy (q_dueDate queryDto) \<or> date_equals db (dueDate t) (string_of (q_dueDate queryDto))))"

text \<open>
  \<^verbatim>\<open>findAll\<close>, lines 188 to 216. The DTO admits a page and a limit from 1 on
  (\<^verbatim>\<open>@Min(1)\<close>); what the query builder does with a negative offset or with no limit is
  not in the sources, and the result is \<open>None\<close> there.
\<close>

definition findAll :: "sql \<Rightarrow> queryTaskDto \<Rightarrow> task list \<Rightarrow> paginatedTasksDto option" where
  "findAll db queryDto ts =
     (let page = (case q_page queryDto of Some p \<Rightarrow> p | None \<Rightarrow> 1);
          limit = (case q_limit queryDto of Some l \<Rightarrow> l | None \<Rightarrow> 10);
          sortBy = (case q_sortBy queryDto of Some c \<Rightarrow> c | None \<Rightarrow> ''createdAt'');
          sortOrder = (case q_sortOrder queryDto of Some d \<Rightarrow> d | None \<Rightarrow> DESC)
      in if page = 0 \<or> limit = 0 then None
         else
           (let matching = filter (buildTaskQuery db queryDto) ts;
                total = length matching;
                offset = (page - 1) * limit;
                found = take limit (drop offset (order_by db sortBy sortOrder matching));
                totalPages = Math_ceil (js_div (of_nat total) (of_nat limit))
            in Some \<lparr>data = found, p_total = total, page = page, limit = limit,
                     totalPages = totalPages,
                     hasNext = (int page < totalPages),
                     hasPrev = (1 < page)\<rparr>))"

subsection \<open>Properties of the events of one call\<close>

fun is_QueueAdd :: "event \<Rightarrow> bool" where
  "is_QueueAdd (QueueAdd j b) = True"
| "is_QueueAdd e = False"




text \<open>A call seen from a state whose log is empty: the events are those of the call.\<close>

definition fresh :: "world \<Rightarrow> world" where
  "fresh w = w\<lparr>trace := []\<rparr>"

subsection \<open>What a batch action does to one row\<close>

text \<open>
  The effect of a batch on a row it lists, in the words of the specification: the row is
  completed, deleted, or gets the new status or the new priority.
\<close>

definition action_on_row :: "batchTaskDto \<Rightarrow> task \<Rightarrow> task list" where
  "action_on_row dto t =
     (if action dto = ''complete'' then [t\<lparr>status := COMPLETED\<rparr>]
      else if action dto = ''delete'' then []
      else if action dto = ''update_status'' then [t\<lparr>status := string_of (newStatus dto)\<rparr>]
      else [t\<lparr>priority := string_of (newPriority dto)\<rparr>])"

definition every_listed_row_affected :: "batchTaskDto \<Rightarrow> task list \<Rightarrow> task list \<Rightarrow> bool" where
  "every_listed_row_affected dto before after =
     (after =
        concat (map (\<lambda>t. if task_id t \<in> set (taskIds dto) then action_on_row dto t else [t])
                  before))"

subsection \<open>Example data\<close>

definition env_ok :: env where
  "env_ok = \<lparr>taskQueue = Some (Queue None), fault = (\<lambda>c. None), new_id = ''t9'',
     default_status = PENDING, default_priority = MEDIUM\<rparr>"

definition env_commit_fails :: env where
  "env_commit_fails =
     env_ok\<lparr>fault := (\<lambda>c. if c = CommitTransaction then Some (Error ''connection lost'') else None)\<rparr>"

definition env_save_fails :: env where
  "env_save_fails =
     env_ok\<lparr>fault := (\<lambda>c. if c = Save then Some (Error ''deadlock detected'') else None)\<rparr>"

definition env_execute_fails :: env where
  "env_execute_fails =
     env_ok\<lparr>fault := (\<lambda>c. if c = Execute then Some (Error ''statement timeout'') else None)\<rparr>"

definition env_queue_down :: env where
  "env_queue_down = env_ok\<lparr>taskQueue := Some (Queue (Some (Error ''ECONNREFUSED'')))\<rparr>"

definition env_no_queue :: env where
  "env_no_queue = env_ok\<lparr>taskQueue := None\<rparr>"

definition task1 :: task where
  "task1 = \<lparr>task_id = ''t1'', title = ''write report'', description = None, status = PENDING,
     priority = LOW, userId = ''u1'', dueDate = Some 100\<rparr>"

definition task2 :: task where
  "task2 = \<lparr>task_id = ''t2'', title = ''review'', description = Some ''second pass'',
     status = IN_PROGRESS, priority = HIGH, userId = ''u2'', dueDate = None\<rparr>"

definition world1 :: world where
  "world1 = \<lparr>tasks = [task1, task2], txn = None, jobs = [], trace = []\<rparr>"

definition dto_new :: createTaskDto where
  "dto_new = \<lparr>c_title = ''plan sprint'', c_description = None, c_status = None,
     c_priority = Some HIGH, c_userId = ''u1'', c_dueDate = None\<rparr>"

definition patch_completed :: updateTaskDto where
  "patch_completed = \<lparr>u_title = None, u_description = None, u_status = Some COMPLETED,
     u_priority = None, u_userId = None, u_dueDate = None\<rparr>"

definition batch_delete :: batchTaskDto where
  "batch_delete = \<lparr>taskIds = [''t1'', ''no-such-id''], action = ''delete'',
     newStatus = None, newPriority = None\<rparr>"

definition batch_no_status :: batchTaskDto where
  "batch_no_status = \<lparr>taskIds = [''t1'', ''t2''], action = ''update_status'',
     newStatus = None, newPriority = None\<rparr>"

definition batch_unknown :: batchTaskDto where
  "batch_unknown = \<lparr>taskIds = [''t1''], action = ''archive'',
     newStatus = None, newPriority = None\<rparr>"

definition batch_urgent :: batchTaskDto where
  "batch_urgent = \<lparr>taskIds = [''t1''], action = ''update_priority'',
     newStatus = Some PENDING, newPriority = Some ''urgent''\<rparr>"

text \<open>A row with a given identifier, status, priority and due date.\<close>

definition row :: "string \<Rightarrow> string \<Rightarrow> nat option \<Rightarrow> string \<Rightarrow> task" where
  "row st pr due i =
     \<lparr>task_id = i, title = ''task '' @ i, description = None, status = st, priority = pr,
      userId = ''u1'', dueDate = due\<rparr>"



text \<open>Twelve tasks, and a database that keeps the order of the rows and matches no text.\<close>

definition twelve :: "task list" where
  "twelve =
     map (row PENDING LOW None)
       [''n01'', ''n02'', ''n03'', ''n04'', ''n05'', ''n06'', ''n07'', ''n08'', ''n09'', ''n10'', ''n11'', ''n12'']"

definition sql_plain :: sql where
  "sql_plain = \<lparr>ilike = (\<lambda>text pattern. False), date_equals = (\<lambda>d s. False),
     order_by = (\<lambda>column direction ts. ts)\<rparr>"

definition query_page2 :: queryTaskDto where
  "query_page2 = \<lparr>q_status = None, q_priority = None, q_userId = None, q_search = None,
     q_dueDate = None, q_sortBy = None, q_sortOrder = None, q_page = Some 2, q_limit = Some 5\<rparr>"

section \<open>Properties\<close>

subsection \<open>Unfolding the collaborators and the examples\<close>

lemmas io_defs = ok_def throw_def io_bind_def try_catch_def try_finally_def emit_def
  logger_error_def logger_warn_def store_call_def connect_def startTransaction_def
  commitTransaction_def rollbackTransaction_def release_def manager_findOne_def
  repository_findOne_def manager_save_def repository_save_def manager_remove_def
  execute_def queue_add_def working_def set_working_def

lemmas example_defs = env_ok_def env_commit_fails_def env_save_fails_def env_execute_fails_def
  env_queue_down_def env_no_queue_def task1_def task2_def world1_def dto_new_def
  patch_completed_def batch_delete_def batch_no_status_def batch_unknown_def batch_urgent_def

lemma find_Some_mem: "find P xs = Some x \<Longrightarrow> x \<in> set xs \<and> P x"
  by (induction xs) (auto split: if_splits)

lemma upsert_mem: "r \<in> set ts \<Longrightarrow> task_id r = task_id t \<Longrightarrow> t \<in> set (upsert t ts)"
  by (auto simp: upsert_def)


lemma task_id_assign: "task_id (assign t dto) = task_id t"
  by (simp add: assign_def)

subsection \<open>Batches\<close>

lemma affected_complete:
  "action dto = ''complete'' \<Longrightarrow>
   every_listed_row_affected dto ts
     (update_whereInIds (\<lambda>r. r\<lparr>status := COMPLETED\<rparr>) (taskIds dto) ts)"
  by (induction ts)
     (auto simp: every_listed_row_affected_def action_on_row_def update_whereInIds_def)

lemma affected_delete:
  "action dto = ''delete'' \<Longrightarrow>
   every_listed_row_affected dto ts (delete_whereInIds (taskIds dto) ts)"
  by (induction ts)
     (auto simp: every_listed_row_affected_def action_on_row_def delete_whereInIds_def)

lemma affected_update_status:
  "action dto = ''update_status'' \<Longrightarrow>
   every_listed_row_affected dto ts
     (update_whereInIds (\<lambda>r. r\<lparr>status := string_of (newStatus dto)\<rparr>) (taskIds dto) ts)"
  by (induction ts)
     (auto simp: every_listed_row_affected_def action_on_row_def update_whereInIds_def)

lemma affected_update_priority:
  "action dto = ''update_priority'' \<Longrightarrow>
   every_listed_row_affected dto ts
     (update_whereInIds (\<lambda>r. r\<lparr>priority := string_of (newPriority dto)\<rparr>) (taskIds dto) ts)"
  by (induction ts)
     (auto simp: every_listed_row_affected_def action_on_row_def update_whereInIds_def)

lemma deleted_ids_gone: "x \<in> set (delete_whereInIds ids ts) \<Longrightarrow> task_id x \<notin> set ids"
  by (simp add: delete_whereInIds_def)





text \<open>
  C1. \<^verbatim>\<open>batchProcess\<close> is all-or-nothing on the tasks table. Whatever the store does
  (the bulk statement or the commit may throw), a call that returns has applied the
  action to every row whose identifier is listed, and a call that throws has rolled back
  and left the table as it was; no transaction stays open. For \<^verbatim>\<open>delete\<close>, with
  identifiers that match no row among the listed ones, afterwards either no listed
  identifier is in the table or the table is unchanged.
\<close>

theorem batchProcess_all_or_nothing:
  assumes "batchProcess env dto w = (r, w')"
  shows "(case r of
            Inr results \<Rightarrow> every_listed_row_affected dto (tasks w) (tasks w')
          | Inl e \<Rightarrow> tasks w' = tasks w \<and> Called RollbackTransaction True \<in> set (trace w'))
         \<and> txn w' = None
         \<and> (action dto = ''delete'' \<longrightarrow>
              (\<forall>i \<in> set (taskIds dto). i \<notin> task_id ` set (tasks w')) \<or> tasks w' = tasks w)"
  using assms
  unfolding batchProcess_def Let_def io_defs
  by (auto split: option.splits if_splits
      simp: affected_complete affected_delete affected_update_status affected_update_priority
      dest: deleted_ids_gone)

theorem batchProcess_all_or_nothing_witness:
  "fst (batchProcess env_ok batch_delete world1)
     = Inr [\<lparr>r_action = ''delete'', success = True, affected = 2,
             r_newStatus = None, r_newPriority = None\<rparr>]
   \<and> tasks (snd (batchProcess env_ok batch_delete world1)) = [task2]
   \<and> every_listed_row_affected batch_delete [task1, task2] [task2]
   \<and> fst (batchProcess env_commit_fails batch_delete world1)
     = Inl (BadRequestException ''Batch operation failed: connection lost'')
   \<and> tasks (snd (batchProcess env_commit_fails batch_delete world1)) = [task1, task2]"
  using batchProcess_all_or_nothing[where env = env_ok and dto = batch_delete and w = world1
      and r = "fst (batchProcess env_ok batch_delete world1)"
      and w' = "snd (batchProcess env_ok batch_delete world1)"]
    batchProcess_all_or_nothing[where env = env_commit_fails and dto = batch_delete and w = world1
      and r = "fst (batchProcess env_commit_fails batch_delete world1)"
      and w' = "snd (batchProcess env_commit_fails batch_delete world1)"]
  unfolding batchProcess_def Let_def io_defs example_defs
  by (simp add: delete_whereInIds_def every_listed_row_affected_def action_on_row_def)

subsection \<open>Creation, update and the queue\<close>












lemma update_succeeds:
  assumes "\<forall>c. fault env c = None" "find (\<lambda>t. task_id t = i) (tasks w) = Some t"
  shows "fst (update env i patch w) = Inr (assign t patch)
         \<and> assign t patch \<in> set (tasks (snd (update env i patch w)))"
proof -
  have "t \<in> set (tasks w)" using find_Some_mem[OF assms(2)] by simp
  hence "assign t patch \<in> set (upsert (assign t patch) (tasks w))"
    by (rule upsert_mem) (simp add: task_id_assign)
  thus ?thesis
    unfolding update_def io_defs Let_def using assms
    by (simp split: option.splits)
qed






subsection \<open>Status changes\<close>

lemma update_enqueues_once:
  assumes "fault env FindOne = None" "fault env Save = None"
    "find (\<lambda>t. task_id t = i) (tasks w) = Some t" "status (assign t patch) \<noteq> status t"
  shows "filter is_QueueAdd (trace (snd (update env i patch (fresh w)))) =
           (case taskQueue env of
              None \<Rightarrow> []
            | Some q \<Rightarrow> [QueueAdd (status_update_job (assign t patch)) (add_throws q = None)])"
  unfolding update_def io_defs Let_def fresh_def using assms
  by (cases "fault env CommitTransaction"; cases "taskQueue env";
      simp split: option.splits queue.splits)

lemma update_same_status_no_enqueue:
  assumes "find (\<lambda>t. task_id t = i) (tasks w) = Some t" "status (assign t patch) = status t"
  shows "filter is_QueueAdd (trace (snd (update env i patch (fresh w)))) = []"
  unfolding update_def io_defs Let_def fresh_def using assms
  by (cases "fault env FindOne"; cases "fault env Save"; cases "fault env CommitTransaction";
      simp)

lemma updateStatus_never_enqueues:
  "filter is_QueueAdd (trace (snd (updateStatus env i s (fresh w)))) = []
   \<and> jobs (snd (updateStatus env i s w)) = jobs w"
  unfolding updateStatus_def findOne_def io_defs fresh_def
  by (cases "fault env FindOne"; cases "fault env Save"; simp split: option.splits)

lemma updateStatus_succeeds:
  assumes "fault env FindOne = None" "fault env Save = None"
    "find (\<lambda>t. task_id t = i) (tasks w) = Some t"
  shows "fst (updateStatus env i s w) = Inr (t\<lparr>status := s\<rparr>)
         \<and> t\<lparr>status := s\<rparr> \<in> set (tasks (snd (updateStatus env i s w)))"
proof -
  have "t \<in> set (tasks w)" using find_Some_mem[OF assms(3)] by simp
  hence "t\<lparr>status := s\<rparr> \<in> set (upsert (t\<lparr>status := s\<rparr>) (tasks w))"
    by (rule upsert_mem) simp
  thus ?thesis
    unfolding updateStatus_def findOne_def io_defs using assms by simp
qed

text \<open>
  C4, as the claim states it, fails on the \<^verbatim>\<open>updateStatus\<close> path: with a healthy store
  and a healthy queue, \<^verbatim>\<open>updateStatus\<close> stores the new status of an existing task and
  attempts no enqueue at all.
\<close>

theorem updateStatus_enqueues_nothing:
  "fst (updateStatus env_ok ''t1'' COMPLETED world1) = Inr (task1\<lparr>status := COMPLETED\<rparr>)
   \<and> tasks (snd (updateStatus env_ok ''t1'' COMPLETED world1))
     = [task1\<lparr>status := COMPLETED\<rparr>, task2]
   \<and> status task1 \<noteq> COMPLETED
   \<and> filter is_QueueAdd (trace (snd (updateStatus env_ok ''t1'' COMPLETED world1))) = []
   \<and> jobs (snd (updateStatus env_ok ''t1'' COMPLETED world1)) = []"
  unfolding updateStatus_def findOne_def io_defs example_defs
  by (simp add: upsert_def COMPLETED_def PENDING_def)

text \<open>
  C4, amended. On the \<^verbatim>\<open>update\<close> path, when the locked read and the save succeed and
  the patch changes the status of the row, there is exactly one attempt to add a job when
  a queue is present, and it carries the identifier of the row and the new status; there
  is none when the queue is absent, and none when the patch leaves the status as it was.
  When the store does not fail the update returns the patched row, which is in the table
  afterwards, with or without a queue. \<^verbatim>\<open>updateStatus\<close> never attempts to add a job:
  when its read and its write succeed it returns the row with the new status, which is
  in the table afterwards.
\<close>

theorem status_change_enqueue:
  "(fault env FindOne = None \<and> fault env Save = None
      \<and> find (\<lambda>t. task_id t = i) (tasks w) = Some t \<and> status (assign t patch) \<noteq> status t \<longrightarrow>
      filter is_QueueAdd (trace (snd (update env i patch (fresh w)))) =
        (case taskQueue env of
           None \<Rightarrow> []
         | Some q \<Rightarrow> [QueueAdd (status_update_job (assign t patch)) (add_throws q = None)])
      \<and> job_taskId (status_update_job (assign t patch)) = task_id t
      \<and> job_status (status_update_job (assign t patch)) = status (assign t patch))
   \<and> (find (\<lambda>t. task_id t = i) (tasks w) = Some t \<and> status (assign t patch) = status t \<longrightarrow>
      filter is_QueueAdd (trace (snd (update env i patch (fresh w)))) = [])
   \<and> ((\<forall>c. fault env c = None) \<and> find (\<lambda>t. task_id t = i) (tasks w) = Some t \<longrightarrow>
      fst (update env i patch w) = Inr (assign t patch)
      \<and> assign t patch \<in> set (tasks (snd (update env i patch w))))
   \<and> filter is_QueueAdd (trace (snd (updateStatus env i s (fresh w)))) = []
   \<and> jobs (snd (updateStatus env i s w)) = jobs w
   \<and> (fault env FindOne = None \<and> fault env Save = None
        \<and> find (\<lambda>t. task_id t = i) (tasks w) = Some t \<longrightarrow>
      fst (updateStatus env i s w) = Inr (t\<lparr>status := s\<rparr>)
      \<and> t\<lparr>status := s\<rparr> \<in> set (tasks (snd (updateStatus env i s w))))"
proof -
  have j: "job_taskId (status_update_job (assign t patch)) = task_id t
      \<and> job_status (status_update_job (assign t patch)) = status (assign t patch)"
    by (simp add: status_update_job_def task_id_assign)
  show ?thesis
    using j update_enqueues_once[where env = env and i = i and w = w and t = t and patch = patch]
      update_same_status_no_enqueue[where env = env and i = i and w = w and t = t
        and patch = patch]
      update_succeeds[where env = env and i = i and w = w and t = t and patch = patch]
      updateStatus_never_enqueues[where env = env and i = i and s = s and w = w]
      updateStatus_succeeds[where env = env and i = i and s = s and w = w and t = t]
    by blast
qed

theorem status_change_enqueue_witness:
  "filter is_QueueAdd (trace (snd (update env_ok ''t1'' patch_completed (fresh world1))))
     = [QueueAdd \<lparr>job_name = ''task-status-update'', job_taskId = ''t1'',
                  job_status = COMPLETED, attempts = 3, backoff_type = ''exponential'',
                  backoff_delay = 2000\<rparr> True]
   \<and> filter is_QueueAdd (trace (snd (update env_no_queue ''t1'' patch_completed (fresh world1))))
     = []
   \<and> fst (update env_no_queue ''t1'' patch_completed world1) = Inr (assign task1 patch_completed)
   \<and> status (assign task1 patch_completed) = COMPLETED
   \<and> filter is_QueueAdd (trace (snd (updateStatus env_ok ''t1'' COMPLETED (fresh world1)))) = []
   \<and> fst (updateStatus env_ok ''t1'' COMPLETED world1) = Inr (task1\<lparr>status := COMPLETED\<rparr>)"
  using status_change_enqueue[where env = env_ok and i = "''t1''" and w = world1 and t = task1
      and patch = patch_completed and s = COMPLETED]
    status_change_enqueue[where env = env_no_queue and i = "''t1''" and w = world1 and t = task1
      and patch = patch_completed and s = COMPLETED]
  by (simp add: example_defs assign_def status_update_job_def COMPLETED_def PENDING_def)

subsection \<open>The enumerations\<close>


subsection \<open>What the caller sees of a failure\<close>










text \<open>
  C10. A call of \<^verbatim>\<open>batchProcess\<close> that returns, returns one result record, which names
  the action, reports success and gives as the number of affected tasks the length of
  the list of identifiers it was given, whatever rows the table holds; an identifier
  that matches no row is counted all the same.
\<close>

theorem batchProcess_affected_is_length:
  assumes "batchProcess env dto w = (Inr results, w')"
  shows "length results = 1
         \<and> (\<forall>r \<in> set results.
               success r \<and> affected r = length (taskIds dto) \<and> r_action r = action dto)"
  using assms unfolding batchProcess_def Let_def io_defs
  by (auto split: option.splits if_splits)

theorem batchProcess_affected_is_length_witness:
  "batchProcess env_ok batch_delete (fresh world1) =
     (Inr [\<lparr>r_action = ''delete'', success = True, affected = 2,
            r_newStatus = None, r_newPriority = None\<rparr>],
      world1\<lparr>tasks := [task2],
        trace := [Called Connect True, Called StartTransaction True, Called Execute True,
                  Called CommitTransaction True, Called Release True]\<rparr>)
   \<and> length (taskIds batch_delete) = 2
   \<and> length (tasks world1) - length [task2] = 1"
  using batchProcess_affected_is_length[where env = env_ok and dto = batch_delete
      and w = "fresh world1"
      and results = "[\<lparr>r_action = ''delete'', success = True, affected = 2,
            r_newStatus = None, r_newPriority = None\<rparr>]"
      and w' = "world1\<lparr>tasks := [task2],
        trace := [Called Connect True, Called StartTransaction True, Called Execute True,
                  Called CommitTransaction True, Called Release True]\<rparr>"]
  unfolding batchProcess_def io_defs example_defs Let_def fresh_def
  by (simp add: delete_whereInIds_def)

subsection \<open>Rounding to double precision\<close>

lemma pow2_powi: "pow2 e = 2 powi e"
  by (simp add: pow2_def power_int_def power_one_over inverse_eq_divide)

lemma pow2_pos: "0 < pow2 e"
  by (simp add: pow2_powi)

lemma pow2_add: "pow2 (a + b) = pow2 a * pow2 b"
  by (simp add: pow2_powi power_int_add)

lemma pow2_nat: "pow2 (int n) = 2 ^ n"
  by (simp add: pow2_def)

lemma pow2_neg_nat: "pow2 (- int n) = 1 / 2 ^ n"
  by (cases n) (simp_all add: pow2_def nat_add_distrib)

lemma ilog2_bounds:
  assumes "0 < x"
  shows "pow2 (ilog2 x) \<le> x \<and> x < pow2 (ilog2 x + 1)"
proof (cases "1 \<le> x")
  case True
  define n where "n = nat \<lfloor>x\<rfloor>"
  have n1: "0 < n" using True by (simp add: n_def)
  have fb: "2 ^ (floorlog 2 n - 1) \<le> n" "n < 2 ^ floorlog 2 n"
    using floorlog_bounds[of n 2] n1 by auto
  have fl_pos: "0 < floorlog 2 n" using n1 by (simp add: floorlog_def)
  have e: "ilog2 x = int (floorlog 2 n - 1)"
    using True fl_pos by (simp add: ilog2_def n_def)
  have "of_nat n = (of_int \<lfloor>x\<rfloor> :: rat)" using True by (simp add: n_def)
  hence nx: "of_nat n \<le> x" "x < of_nat n + 1"
    by linarith+
  have "(2::rat) ^ (floorlog 2 n - 1) \<le> of_nat n"
    using of_nat_mono[OF fb(1), where 'a = rat] by simp
  moreover have "pow2 (ilog2 x) = 2 ^ (floorlog 2 n - 1)" by (simp only: e pow2_nat)
  ultimately have lo: "pow2 (ilog2 x) \<le> x" using nx(1) by linarith
  have "n + 1 \<le> 2 ^ floorlog 2 n" using fb(2) by simp
  from of_nat_mono[OF this, where 'a = rat]
  have "(of_nat n :: rat) + 1 \<le> 2 ^ floorlog 2 n" by simp
  moreover have "ilog2 x + 1 = int (floorlog 2 n)" using e fl_pos by simp
  hence "pow2 (ilog2 x + 1) = 2 ^ floorlog 2 n" by (simp only: pow2_nat)
  ultimately have hi: "x < pow2 (ilog2 x + 1)" using nx(2) by linarith
  from lo hi show ?thesis ..
next
  case False
  hence x1: "x < 1" by simp
  define y where "y = 1 / x"
  have y1: "1 < y" using assms x1 by (simp add: y_def)
  define m where "m = nat (\<lceil>y\<rceil> - 1)"
  have cy: "2 \<le> \<lceil>y\<rceil>" using y1 by (simp add: le_ceiling_iff)
  have m1: "0 < m" using cy by (simp add: m_def)
  have fb: "2 ^ (floorlog 2 m - 1) \<le> m" "m < 2 ^ floorlog 2 m"
    using floorlog_bounds[of m 2] m1 by auto
  define k where "k = floorlog 2 m"
  have k_pos: "0 < k" using m1 by (simp add: floorlog_def k_def)
  have e: "ilog2 x = - int k" using False by (simp add: ilog2_def k_def m_def y_def)
  have my: "of_nat m < y" "y \<le> of_nat m + 1"
  proof -
    have "of_nat m = (of_int (\<lceil>y\<rceil> - 1) :: rat)" using cy by (simp add: m_def)
    thus "of_nat m < y" "y \<le> of_nat m + 1" by (simp_all add: ceiling_correct less_ceiling_iff) 
  qed
  have "m + 1 \<le> 2 ^ k" using fb(2) by (simp add: k_def)
  from of_nat_mono[OF this, where 'a = rat]
  have "(of_nat m :: rat) + 1 \<le> 2 ^ k" by simp
  hence "y \<le> 2 ^ k" using my(2) by linarith
  hence "1 / 2 ^ k \<le> x" using assms by (simp add: y_def field_simps)
  hence lo: "pow2 (ilog2 x) \<le> x" by (simp add: e pow2_neg_nat)
  have "(2::rat) ^ (k - 1) \<le> of_nat m"
    using of_nat_mono[OF fb(1), where 'a = rat] by (simp add: k_def)
  hence "2 ^ (k - 1) < y" using my(1) by linarith
  hence "x < 1 / 2 ^ (k - 1)" using assms by (simp add: y_def field_simps)
  moreover have "ilog2 x + 1 = - int (k - 1)" using e k_pos by simp
  ultimately have hi: "x < pow2 (ilog2 x + 1)" by (simp only: pow2_neg_nat)
  from lo hi show ?thesis ..
qed

lemma round_ties_even_error: "\<bar>of_int (round_ties_even y) - y\<bar> \<le> 1 / 2"
proof -
  have "of_int \<lfloor>y\<rfloor> \<le> y" "y < of_int \<lfloor>y\<rfloor> + 1" by linarith+
  thus ?thesis unfolding round_ties_even_def Let_def by (auto simp: abs_le_iff)
qed

lemma round_ties_even_of_int: "round_ties_even (of_int k) = k"
  by (simp add: round_ties_even_def)

lemma to_double_error:
  assumes "0 < x"
  shows "\<bar>to_double x - x\<bar> \<le> x / 2 ^ 53"
proof -
  define u where "u = pow2 (ilog2 x - 52)"
  have u_pos: "0 < u" by (simp add: u_def pow2_pos)
  have td: "to_double x = of_int (round_ties_even (x / u)) * u"
    using assms by (simp add: to_double_def u_def Let_def)
  have "to_double x - x = (of_int (round_ties_even (x / u)) - x / u) * u"
    using u_pos by (simp add: td left_diff_distrib)
  hence "\<bar>to_double x - x\<bar> = \<bar>of_int (round_ties_even (x / u)) - x / u\<bar> * u"
    using u_pos by (simp only: abs_mult abs_of_pos)
  also have "\<dots> \<le> 1 / 2 * u"
    using round_ties_even_error[of "x / u"] u_pos by (simp add: mult_right_mono)
  also have "u = pow2 (ilog2 x) * pow2 (- 52)"
    unfolding u_def using pow2_add[of "ilog2 x" "- 52"] by simp
  also have "1 / 2 * (pow2 (ilog2 x) * pow2 (- 52)) = pow2 (ilog2 x) / 2 ^ 53"
    by (simp add: pow2_def)
  also have "\<dots> \<le> x / 2 ^ 53"
    using ilog2_bounds[OF assms] by (simp add: divide_right_mono)
  finally show ?thesis .
qed


lemma pow2_less_imp: "pow2 a \<le> x \<Longrightarrow> x < pow2 b \<Longrightarrow> a < b"
proof (rule ccontr)
  assume a: "pow2 a \<le> x" "x < pow2 b" and "\<not> a < b"
  hence "b \<le> a" by simp
  hence "pow2 b \<le> pow2 a" unfolding pow2_powi by (rule power_int_increasing) simp
  with a show False by linarith
qed

lemma to_double_of_nat:
  assumes "n < 2 ^ 53"
  shows "to_double (of_nat n) = of_nat n"
proof (cases "n = 0")
  case True
  thus ?thesis by (simp add: to_double_def)
next
  case False
  define x :: rat where "x = of_nat n"
  have x_pos: "0 < x" using False by (simp add: x_def)
  have "x < of_nat (2 ^ 53)" unfolding x_def using assms by (simp only: of_nat_less_iff)
  hence "x < pow2 53" by (simp add: pow2_def)
  with ilog2_bounds[OF x_pos] have "ilog2 x < 53" by (auto dest: pow2_less_imp)
  define k where "k = nat (52 - ilog2 x)"
  have ke: "ilog2 x - 52 = - int k" using \<open>ilog2 x < 53\<close> by (simp add: k_def)
  have u: "pow2 (ilog2 x - 52) = 1 / 2 ^ k"
    by (simp only: ke pow2_neg_nat)
  have td: "to_double x = of_int (round_ties_even (x / pow2 (ilog2 x - 52))) * pow2 (ilog2 x - 52)"
    using x_pos by (simp add: to_double_def Let_def)
  have "x / (1 / 2 ^ k) = of_int (int n * 2 ^ k)" by (simp add: x_def)
  hence r: "round_ties_even (x / (1 / 2 ^ k)) = int n * 2 ^ k"
    by (simp only: round_ties_even_of_int)
  have "to_double x = of_int (int n * 2 ^ k) * (1 / 2 ^ k)"
    by (simp only: td u r)
  also have "\<dots> = x" by (simp add: x_def)
  finally show ?thesis by (simp add: x_def)
qed

lemma ceil_js_div:
  assumes "0 < L" "T < 2 ^ 53"
  shows "Math_ceil (js_div (of_nat T) (of_nat L)) = \<lceil>(of_nat T :: rat) / of_nat L\<rceil>"
proof (cases "L dvd T")
  case True
  then obtain d where d: "T = L * d" ..
  have "d \<le> T" using assms(1) d by simp
  hence "d < 2 ^ 53" using assms(2) by simp
  moreover have "(of_nat T :: rat) / of_nat L = of_nat d" using assms(1) d by simp
  ultimately show ?thesis by (simp add: Math_ceil_def js_div_def to_double_of_nat)
next
  case False
  define q :: rat where "q = of_nat T / of_nat L"
  define n where "n = \<lceil>q\<rceil>"
  have T_pos: "0 < T" using False by (cases T) auto
  have q_pos: "0 < q" using T_pos assms(1) by (simp add: q_def)
  have Lr: "(0::rat) < of_nat L" using assms(1) by simp
  have qL: "q * of_nat L = of_nat T" using assms(1) by (simp add: q_def)
  have "q \<le> of_int n" "of_int n - 1 < q" unfolding n_def by linarith+
  have "of_int n \<noteq> q"
  proof
    assume "of_int n = q"
    hence "(of_int (n * int L) :: rat) = of_int (int T)" using qL by simp
    hence "n * int L = int T" by (simp only: of_int_eq_iff)
    hence "int L dvd int T" by (metis dvd_triv_right)
    thus False using False by simp
  qed
  hence "q < of_int n" using \<open>q \<le> of_int n\<close> by simp
  hence "q * of_nat L < of_int n * of_nat L" using Lr by (simp only: mult_less_cancel_right_pos)
  hence "(of_int (int T) :: rat) < of_int (n * int L)" using qL by simp
  hence "int T < n * int L" by (simp only: of_int_less_iff)
  hence "int T + 1 \<le> n * int L" by simp
  hence "(of_int (int T + 1) :: rat) \<le> of_int (n * int L)" by (simp only: of_int_le_iff)
  hence "q * of_nat L + 1 \<le> of_int n * of_nat L" using qL by simp
  hence up: "q + 1 / of_nat L \<le> of_int n" using Lr by (simp add: field_simps)
  have "(of_int n - 1) * of_nat L < q * of_nat L"
    using \<open>of_int n - 1 < q\<close> Lr by (simp only: mult_less_cancel_right_pos)
  hence "(of_int ((n - 1) * int L) :: rat) < of_int (int T)" using qL by simp
  hence "(n - 1) * int L < int T" by (simp only: of_int_less_iff)
  hence "(n - 1) * int L + 1 \<le> int T" by simp
  hence "(of_int ((n - 1) * int L + 1) :: rat) \<le> of_int (int T)" by (simp only: of_int_le_iff)
  hence "(of_int n - 1) * of_nat L + 1 \<le> q * of_nat L" using qL by simp
  hence lo: "of_int n - 1 + 1 / of_nat L \<le> q" using Lr by (simp add: field_simps)
  have "(of_nat T :: rat) < of_nat (2 ^ 53)" using assms(2) by (simp only: of_nat_less_iff)
  hence "(of_nat T :: rat) / 2 ^ 53 < 1" by simp
  hence "(of_nat T :: rat) / 2 ^ 53 / of_nat L < 1 / of_nat L"
    using Lr by (simp only: divide_strict_right_mono)
  hence small: "q / 2 ^ 53 < 1 / of_nat L" by (simp add: q_def)
  have "\<bar>to_double q - q\<bar> \<le> q / 2 ^ 53" by (rule to_double_error[OF q_pos])
  hence "of_int n - 1 < to_double q" "to_double q \<le> of_int n"
    using small up lo by linarith+
  hence "\<lceil>to_double q\<rceil> = n" by (rule ceiling_unique)
  thus ?thesis by (simp add: Math_ceil_def js_div_def q_def n_def)
qed






subsection \<open>Statistics\<close>















subsection \<open>Pages\<close>

lemma ceil_div_nat:
  assumes "0 < L"
  shows "\<lceil>(of_nat T :: rat) / of_nat L\<rceil> = int ((T + L - 1) div L)"
proof -
  define n where "n = (T + L - 1) div L"
  have a: "n * L \<le> T + L - 1" unfolding n_def by (rule div_times_less_eq_dividend)
  have b: "T + L - 1 < L + n * L" unfolding n_def using assms by (rule dividend_less_div_times)
  have up: "T \<le> n * L" using b assms by linarith
  have lo: "n * L < T + L" using a assms by linarith
  have Lr: "(0::rat) < of_nat L" using assms by simp
  have "(of_nat T :: rat) \<le> of_nat (n * L)" using up by (simp only: of_nat_le_iff)
  hence u: "(of_nat T :: rat) / of_nat L \<le> of_int (int n)" using Lr by (simp add: field_simps)
  have "(of_nat (n * L) :: rat) < of_nat (T + L)" using lo by (simp only: of_nat_less_iff)
  hence l: "of_int (int n) - 1 < (of_nat T :: rat) / of_nat L" using Lr by (simp add: field_simps)
  show ?thesis unfolding n_def[symmetric] using l u by (rule ceiling_unique)
qed

lemma length_page:
  assumes "mset ys = mset xs"
  shows "length (take L (drop off ys)) = min L (length xs - off)"
    and "set (take L (drop off ys)) \<subseteq> set xs"
proof -
  have "length ys = length xs" using assms by (metis size_mset)
  thus "length (take L (drop off ys)) = min L (length xs - off)" by simp
  have "set ys = set xs" using assms by (metis set_mset_mset)
  thus "set (take L (drop off ys)) \<subseteq> set xs"
    using set_take_subset set_drop_subset by fast
qed

text \<open>
  C9. For a page \<open>p\<close> and a limit \<open>L\<close> from 1 on and a filter that \<open>T\<close> tasks match
  (\<open>T\<close> below \<open>2\<^sup>5\<^sup>3\<close>, as every count that a JavaScript number holds exactly), on a
  database whose \<^verbatim>\<open>ORDER BY\<close> returns the rows it is given in some order, \<^verbatim>\<open>findAll\<close>
  returns the page that starts at offset \<open>(p - 1) * L\<close> of the ordered matches, at most
  \<open>L\<close> items, with total \<open>T\<close>, \<open>\<lceil>T / L\<rceil>\<close> pages, a next page exactly when \<open>p\<close> is less
  than the number of pages and a previous page exactly when \<open>p\<close> is more than 1. With
  page 2, limit 5 and 12 matches that is 5 items, total 12, 3 pages, a next page and a
  previous page.
\<close>

theorem findAll_page_envelope:
  assumes "1 \<le> p" "1 \<le> L" "q_page dto = Some p" "q_limit dto = Some L"
    and "\<forall>c d xs. mset (order_by db c d xs) = mset xs"
    and "length (filter (buildTaskQuery db dto) ts) = T" "T < 2 ^ 53"
  shows "\<exists>r. findAll db dto ts = Some r
     \<and> data r = take L (drop ((p - 1) * L)
                  (order_by db (case q_sortBy dto of Some c \<Rightarrow> c | None \<Rightarrow> ''createdAt'')
                     (case q_sortOrder dto of Some d \<Rightarrow> d | None \<Rightarrow> DESC)
                     (filter (buildTaskQuery db dto) ts)))
     \<and> length (data r) \<le> L
     \<and> length (data r) = min L (T - (p - 1) * L)
     \<and> set (data r) \<subseteq> set (filter (buildTaskQuery db dto) ts)
     \<and> p_total r = T \<and> page r = p \<and> limit r = L
     \<and> totalPages r = \<lceil>(of_nat T :: rat) / of_nat L\<rceil>
     \<and> totalPages r = int ((T + L - 1) div L)
     \<and> hasNext r = (int p < totalPages r)
     \<and> hasPrev r = (1 < p)"
proof -
  have L: "0 < L" using assms(2) by simp
  have tp: "Math_ceil (js_div (of_nat T) (of_nat L)) = \<lceil>(of_nat T :: rat) / of_nat L\<rceil>"
    by (rule ceil_js_div[OF L assms(7)])
  have pg: "length (take L (drop ((p - 1) * L)
                  (order_by db (case q_sortBy dto of Some c \<Rightarrow> c | None \<Rightarrow> ''createdAt'')
                     (case q_sortOrder dto of Some d \<Rightarrow> d | None \<Rightarrow> DESC)
                     (filter (buildTaskQuery db dto) ts)))) = min L (T - (p - 1) * L)"
    "set (take L (drop ((p - 1) * L)
                  (order_by db (case q_sortBy dto of Some c \<Rightarrow> c | None \<Rightarrow> ''createdAt'')
                     (case q_sortOrder dto of Some d \<Rightarrow> d | None \<Rightarrow> DESC)
                     (filter (buildTaskQuery db dto) ts)))) \<subseteq> set (filter (buildTaskQuery db dto) ts)"
    using length_page[of "order_by db (case q_sortBy dto of Some c \<Rightarrow> c | None \<Rightarrow> ''createdAt'')
                     (case q_sortOrder dto of Some d \<Rightarrow> d | None \<Rightarrow> DESC)
                     (filter (buildTaskQuery db dto) ts)" "filter (buildTaskQuery db dto) ts" L "(p - 1) * L"]
      assms(5) assms(6) by simp_all
  show ?thesis
    using assms(1-4) assms(6) tp pg ceil_div_nat[OF L, of T]
    by (simp add: findAll_def Let_def del: set_filter)
qed

theorem findAll_page_envelope_witness:
  "\<exists>r. findAll sql_plain query_page2 twelve = Some r
     \<and> length (data r) = 5 \<and> p_total r = 12 \<and> totalPages r = 3 \<and> hasNext r \<and> hasPrev r"
proof -
  have T: "length (filter (buildTaskQuery sql_plain query_page2) twelve) = 12"
    by (simp add: buildTaskQuery_def query_page2_def twelve_def)
  have perm: "\<forall>c d xs. mset (order_by sql_plain c d xs) = mset xs" by (simp add: sql_plain_def)
  have h: "q_page query_page2 = Some 2" "q_limit query_page2 = Some 5"
    by (simp_all add: query_page2_def)
  have "\<exists>r. findAll sql_plain query_page2 twelve = Some r
     \<and> data r = take 5 (drop ((2 - 1) * 5)
                  (order_by sql_plain (case q_sortBy query_page2 of Some c \<Rightarrow> c | None \<Rightarrow> ''createdAt'')
                     (case q_sortOrder query_page2 of Some d \<Rightarrow> d | None \<Rightarrow> DESC)
                     (filter (buildTaskQuery sql_plain query_page2) twelve)))
     \<and> length (data r) \<le> 5
     \<and> length (data r) = min 5 (12 - (2 - 1) * 5)
     \<and> set (data r) \<subseteq> set (filter (buildTaskQuery sql_plain query_page2) twelve)
     \<and> p_total r = 12 \<and> page r = 2 \<and> limit r = 5
     \<and> totalPages r = \<lceil>(of_nat 12 :: rat) / of_nat 5\<rceil>
     \<and> totalPages r = int ((12 + 5 - 1) div 5)
     \<and> hasNext r = (int 2 < totalPages r)
     \<and> hasPrev r = (1 < (2::nat))"
    by (rule findAll_page_envelope[OF _ _ h perm T]) simp_all
  then obtain r where r: "findAll sql_plain query_page2 twelve = Some r"
    "length (data r) = min 5 (12 - (2 - 1) * 5)" "p_total r = 12"
    "totalPages r = int ((12 + 5 - 1) div 5)"
    "hasNext r = (int 2 < totalPages r)" "hasPrev r = (1 < (2::nat))"
    by blast
  show ?thesis using r by simp
qed

end
